theory Spec2Isabelle
  imports Main
begin

section \<open>JavaScript values\<close>

text \<open>
  The handlers read frames through \<^verbatim>\<open>JSON.parse\<close>, whose result has type \<^verbatim>\<open>any\<close>, so
  every value they touch is a JavaScript value: \<open>undefined\<close>, or what JSON can hold.
  A number is kept as the text \<^verbatim>\<open>Number.prototype.toString\<close> gives it (\<open>''0''\<close> for both
  zeros), which is all the code asks of a number: whether it is truthy and how it prints.
  An object is the list of its own properties, read by first match.
\<close>

datatype jsval =
    JUndefined
  | JNull
  | JBool bool
  | JNum string
  | JStr string
  | JArr "jsval list"
  | JObj "(string \<times> jsval) list"

text \<open>An exception, with its \<^verbatim>\<open>message\<close>.\<close>

datatype js_exn = SyntaxError string | TypeError string | RangeError string | Error string

fun message :: "js_exn \<Rightarrow> string" where
  "message (SyntaxError m) = m"
| "message (TypeError m) = m"
| "message (RangeError m) = m"
| "message (Error m) = m"

fun truthy :: "jsval \<Rightarrow> bool" where
  "truthy JUndefined = False"
| "truthy JNull = False"
| "truthy (JBool b) = b"
| "truthy (JNum r) = (r \<noteq> ''0'' \<and> r \<noteq> ''NaN'')"
| "truthy (JStr s) = (s \<noteq> [])"
| "truthy (JArr xs) = True"
| "truthy (JObj kvs) = True"

definition nullish :: "jsval \<Rightarrow> bool" where
  "nullish v = (v = JUndefined \<or> v = JNull)"

text \<open>\<^verbatim>\<open>Array.prototype.join\<close> with its default separator.\<close>

fun join :: "string list \<Rightarrow> string" where
  "join [] = []"
| "join [x] = x"
| "join (x # y # ys) = x @ '','' @ join (y # ys)"

text \<open>
  \<^verbatim>\<open>ToString\<close>, as string concatenation and template literals apply it: an array is
  joined (a nullish element printing as the empty string), a plain object prints as
  \<^verbatim>\<open>[object Object]\<close>.
\<close>

fun ToString :: "jsval \<Rightarrow> string" where
  "ToString JUndefined = ''undefined''"
| "ToString JNull = ''null''"
| "ToString (JBool b) = (if b then ''true'' else ''false'')"
| "ToString (JNum r) = r"
| "ToString (JStr s) = s"
| "ToString (JArr xs) =
     join (map (\<lambda>x. if x = JUndefined \<or> x = JNull then [] else ToString x) xs)"
| "ToString (JObj kvs) = ''[object Object]''"

fun ToPrimitive :: "jsval \<Rightarrow> jsval" where
  "ToPrimitive (JArr xs) = JStr (ToString (JArr xs))"
| "ToPrimitive (JObj kvs) = JStr (ToString (JObj kvs))"
| "ToPrimitive v = v"

fun is_string :: "jsval \<Rightarrow> bool" where
  "is_string (JStr s) = True"
| "is_string v = False"

text \<open>
  The operator \<^verbatim>\<open>+\<close>: concatenation as soon as one primitive operand is a string.
  Otherwise it adds two IEEE-754 numbers; that sum is the engine's and is taken as the
  parameter \<open>num_add\<close>.
\<close>

definition js_plus :: "(jsval \<Rightarrow> jsval \<Rightarrow> jsval) \<Rightarrow> jsval \<Rightarrow> jsval \<Rightarrow> jsval" where
  "js_plus num_add a b =
     (let pa = ToPrimitive a; pb = ToPrimitive b
      in if is_string pa \<or> is_string pb then JStr (ToString pa @ ToString pb)
         else num_add pa pb)"

text \<open>
  \<open>member v k\<close> is \<^verbatim>\<open>v.k\<close> for a \<open>v\<close> that is not nullish. The names the code reads
  (\<^verbatim>\<open>type\<close>, \<^verbatim>\<open>session\<close>, \<^verbatim>\<open>id\<close>, \<^verbatim>\<open>delta\<close>, \<^verbatim>\<open>response\<close>, \<^verbatim>\<open>input_transcription\<close>,
  \<^verbatim>\<open>output\<close>, \<^verbatim>\<open>content\<close>, \<^verbatim>\<open>text\<close>, \<^verbatim>\<open>error\<close>, \<^verbatim>\<open>description\<close>, \<^verbatim>\<open>image_data_url\<close>,
  \<^verbatim>\<open>prompt\<close>, \<^verbatim>\<open>choices\<close>, \<^verbatim>\<open>message\<close>, \<^verbatim>\<open>client_secret\<close>, \<^verbatim>\<open>value\<close>) are defined by no
  prototype, so only an object's own property can answer.
\<close>

fun member :: "jsval \<Rightarrow> string \<Rightarrow> jsval" where
  "member (JObj kvs) k = (case map_of kvs k of None \<Rightarrow> JUndefined | Some x \<Rightarrow> x)"
| "member v k = JUndefined"

text \<open>\<open>index0 v\<close> is \<^verbatim>\<open>v[0]\<close> for a \<open>v\<close> that is not nullish.\<close>

fun index0 :: "jsval \<Rightarrow> jsval" where
  "index0 (JArr xs) = (case xs of [] \<Rightarrow> JUndefined | x # rest \<Rightarrow> x)"
| "index0 (JStr s) = (case s of [] \<Rightarrow> JUndefined | c # rest \<Rightarrow> JStr [c])"
| "index0 (JObj kvs) = member (JObj kvs) ''0''"
| "index0 v = JUndefined"

text \<open>
  Reading a property of \<open>undefined\<close> or \<open>null\<close> throws a \<^verbatim>\<open>TypeError\<close> (the message is
  worded as V8 words it).
\<close>

definition cannot_read :: "jsval \<Rightarrow> string \<Rightarrow> js_exn" where
  "cannot_read v k =
     TypeError (''Cannot read properties of '' @ ToString v @ '' (reading '' @ [CHR 39] @ k @ [CHR 39] @ '')'')"

definition get :: "jsval \<Rightarrow> string \<Rightarrow> js_exn + jsval" where
  "get v k = (if nullish v then Inl (cannot_read v k) else Inr (member v k))"

definition get0 :: "jsval \<Rightarrow> js_exn + jsval" where
  "get0 v = (if nullish v then Inl (cannot_read v ''0'') else Inr (index0 v))"

text \<open>
  \<open>event.data\<close> under \<^verbatim>\<open>JSON.parse\<close>: text that is not JSON makes it throw, any other text
  gives the value it denotes.
\<close>

datatype message_event = NotJSON string | JSONText jsval

fun JSON_parse :: "message_event \<Rightarrow> js_exn + jsval" where
  "JSON_parse (NotJSON why) = Inl (SyntaxError why)"
| "JSON_parse (JSONText v) = Inr v"

section \<open>The component's state\<close>

text \<open>
  Objects the component creates live in a store and are named by their index: a peer
  connection by its \<^verbatim>\<open>connectionState\<close>, a data channel by its owner and \<^verbatim>\<open>readyState\<close>,
  a media track by a number (\<open>ended\<close> holds the tracks whose \<^verbatim>\<open>stop()\<close> has run). A
  \<^verbatim>\<open>MediaStream\<close> is the list of its tracks. \<open>alerts\<close> and \<open>sent\<close> record what \<^verbatim>\<open>alert\<close>
  showed and what \<^verbatim>\<open>send\<close> wrote, each message as the value given to
  \<^verbatim>\<open>JSON.stringify\<close>, with the channel it went to.
\<close>

datatype pc_state = PcNew | PcConnecting | PcConnected | PcDisconnected | PcFailed | PcClosed

datatype dc_state = DcConnecting | DcOpen | DcClosing | DcClosed

record data_channel =
  owner :: nat
  readyState :: dc_state

record video_element =
  srcObject :: "nat list option"

text \<open>
  The \<^verbatim>\<open>useState\<close> and \<^verbatim>\<open>useRef\<close> cells of \<^verbatim>\<open>RealtimeAssistant\<close>. The earlier copy of
  the component that follows the route handler in \<^verbatim>\<open>describe-scene/route.ts\<close> has the
  first three cells and the first two references, and one stream, \<open>localStreamRef\<close>,
  for the microphone.
\<close>

record session =
  isConnected :: bool
  transcription :: jsval
  responseText :: jsval
  sceneDescription :: jsval
  isVideoEnabled :: bool
  videoError :: "string option"
  isProcessingScene :: bool
  peerConnectionRef :: "nat option"
  dataChannelRef :: "nat option"
  localAudioStreamRef :: "nat list option"
  localVideoStreamRef :: "nat list option"
  localStreamRef :: "nat list option"
  videoElRef :: "video_element option"
  pcs :: "pc_state list"
  dcs :: "data_channel list"
  ntracks :: nat
  ended :: "nat set"
  alerts :: "string list"
  sent :: "(nat \<times> jsval) list"

section \<open>Inbound events\<close>

text \<open>\<^verbatim>\<open>msg.response?.input_transcription\<close>, for a \<open>msg\<close> that is not nullish.\<close>

definition input_transcription :: "jsval \<Rightarrow> jsval" where
  "input_transcription msg =
     (let r = member msg ''response''
      in if nullish r then JUndefined else member r ''input_transcription'')"

text \<open>
  \<^verbatim>\<open>msg.response?.output?.[0]?.content[0].text\<close>: the chain stops at the first nullish
  link up to \<^verbatim>\<open>output[0]\<close>; \<^verbatim>\<open>content\<close> and \<^verbatim>\<open>content[0]\<close> are read without the guard.
\<close>

definition output_text :: "jsval \<Rightarrow> js_exn + jsval" where
  "output_text msg =
     (let r = member msg ''response'' in
      if nullish r then Inr JUndefined
      else let out = member r ''output'' in
        if nullish out then Inr JUndefined
        else let item = index0 out in
          if nullish item then Inr JUndefined
          else (case get0 (member item ''content'') of
                  Inl e \<Rightarrow> Inl e
                | Inr c \<Rightarrow> get c ''text''))"

text \<open>
  \<^verbatim>\<open>handleDataChannelMessage\<close> of \<^verbatim>\<open>RealtimeAssistant.tsx\<close>. Its whole body is one
  \<^verbatim>\<open>try\<close>; the second component of the result is the exception its \<^verbatim>\<open>catch\<close> logged, if
  any. The \<^verbatim>\<open>switch\<close> compares with \<^verbatim>\<open>===\<close>.
\<close>

definition handleDataChannelMessage ::
    "(jsval \<Rightarrow> jsval \<Rightarrow> jsval) \<Rightarrow> session \<Rightarrow> message_event \<Rightarrow> session \<times> js_exn option" where
  "handleDataChannelMessage num_add s event =
     (case JSON_parse event of
        Inl e \<Rightarrow> (s, Some e)
      | Inr msg \<Rightarrow>
          (case get msg ''type'' of
             Inl e \<Rightarrow> (s, Some e)
           | Inr ty \<Rightarrow>
               if ty = JStr ''session.created'' then
                 (case get (member msg ''session'') ''id'' of
                    Inl e \<Rightarrow> (s, Some e)
                  | Inr i \<Rightarrow> (s, None))
               else if ty = JStr ''response.audio_transcript.delta'' then
                 (s\<lparr>transcription := js_plus num_add (transcription s) (member msg ''delta'')\<rparr>, None)
               else if ty = JStr ''response.text.delta'' then
                 (s\<lparr>responseText := js_plus num_add (responseText s) (member msg ''delta'')\<rparr>, None)
               else if ty = JStr ''response.done'' then
                 (if truthy (input_transcription msg)
                  then (s\<lparr>transcription := input_transcription msg\<rparr>, None)
                  else (s, None))
               else (s, None)))"

text \<open>
  The copy in \<^verbatim>\<open>describe-scene/route.ts\<close>. On \<^verbatim>\<open>response.done\<close> it also takes the final
  output text; the second \<^verbatim>\<open>response.audio_transcript.delta\<close> case stands after the
  first, where the \<^verbatim>\<open>switch\<close> never reaches it.
\<close>

definition handleDataChannelMessage_route ::
    "(jsval \<Rightarrow> jsval \<Rightarrow> jsval) \<Rightarrow> session \<Rightarrow> message_event \<Rightarrow> session \<times> js_exn option" where
  "handleDataChannelMessage_route num_add s event =
     (case JSON_parse event of
        Inl e \<Rightarrow> (s, Some e)
      | Inr msg \<Rightarrow>
          (case get msg ''type'' of
             Inl e \<Rightarrow> (s, Some e)
           | Inr ty \<Rightarrow>
               if ty = JStr ''session.created'' then
                 (case get (member msg ''session'') ''id'' of
                    Inl e \<Rightarrow> (s, Some e)
                  | Inr i \<Rightarrow> (s, None))
               else if ty = JStr ''response.audio_transcript.delta'' then
                 (s\<lparr>transcription := js_plus num_add (transcription s) (member msg ''delta'')\<rparr>, None)
               else if ty = JStr ''response.text.delta'' then
                 (s\<lparr>responseText := js_plus num_add (responseText s) (member msg ''delta'')\<rparr>, None)
               else if ty = JStr ''response.done'' then
                 (let s1 = (if truthy (input_transcription msg)
                            then s\<lparr>transcription := input_transcription msg\<rparr> else s)
                  in case output_text msg of
                       Inl e \<Rightarrow> (s1, Some e)
                     | Inr t \<Rightarrow> if truthy t then (s1\<lparr>responseText := t\<rparr>, None) else (s1, None))
               else if ty = JStr ''response.audio_transcript.delta'' then
                 (s\<lparr>transcription := js_plus num_add (transcription s) (member msg ''delta'')\<rparr>, None)
               else (s, None)))"

text \<open>Frames delivered in order: each runs the handler on the state the last one left.\<close>

fun deliver ::
    "(session \<Rightarrow> message_event \<Rightarrow> session \<times> js_exn option) \<Rightarrow> session \<Rightarrow> message_event list \<Rightarrow> session" where
  "deliver h s [] = s"
| "deliver h s (ev # evs) = deliver h (fst (h s ev)) evs"

text \<open>A frame that is a \<^verbatim>\<open>response.audio_transcript.delta\<close> carrying the string \<open>d\<close>.\<close>

definition transcript_delta :: "message_event \<Rightarrow> string \<Rightarrow> bool" where
  "transcript_delta ev d =
     (case ev of
        NotJSON why \<Rightarrow> False
      | JSONText msg \<Rightarrow>
          member msg ''type'' = JStr ''response.audio_transcript.delta'' \<and>
          member msg ''delta'' = JStr d)"

text \<open>
  The component once mounted: every \<^verbatim>\<open>useState\<close> cell at its initial value, every
  reference \<open>null\<close> but the one to the \<^verbatim>\<open><video>\<close> element, which shows nothing yet.
\<close>

definition mounted :: session where
  "mounted =
     \<lparr>isConnected = False, transcription = JStr [], responseText = JStr [],
      sceneDescription = JStr [], isVideoEnabled = False, videoError = None,
      isProcessingScene = False, peerConnectionRef = None, dataChannelRef = None,
      localAudioStreamRef = None, localVideoStreamRef = None, localStreamRef = None,
      videoElRef = Some \<lparr>srcObject = None\<rparr>, pcs = [], dcs = [], ntracks = 0,
      ended = {}, alerts = [], sent = []\<rparr>"

section \<open>The vision-description endpoint\<close>

text \<open>
  What \<^verbatim>\<open>fetch\<close> resolves to: the status, and what \<^verbatim>\<open>json()\<close> and \<^verbatim>\<open>text()\<close> give for the
  body (\<open>Inl\<close> when they reject). A \<^verbatim>\<open>fetch\<close> that rejects is \<open>Inl\<close> itself.
\<close>

record fetch_response =
  status :: nat
  json_body :: "js_exn + jsval"
  text_body :: "js_exn + string"

definition ok :: "fetch_response \<Rightarrow> bool" where
  "ok r = (200 \<le> status r \<and> status r \<le> 299)"

record next_response =
  code :: nat
  content :: jsval

text \<open>
  \<^verbatim>\<open>NextResponse.json(body, { status })\<close> builds on \<^verbatim>\<open>Response.json\<close>, which throws a
  \<^verbatim>\<open>RangeError\<close> for a status outside 200..599 and a \<^verbatim>\<open>TypeError\<close> for a status that
  admits no body (204, 205 and 304; the messages are abridged).
\<close>

definition NextResponse_json :: "jsval \<Rightarrow> nat \<Rightarrow> js_exn + next_response" where
  "NextResponse_json body st =
     (if st < 200 \<or> 599 < st
        then Inl (RangeError (''init['' @ [CHR 34] @ ''status'' @ [CHR 34]
                @ ''] must be in the range of 200 to 599, inclusive.''))
      else if st = 204 \<or> st = 205 \<or> st = 304
        then Inl (TypeError ''Response constructor: Invalid response status code'')
      else Inr \<lparr>code = st, content = body\<rparr>)"

definition OPENAI_VISION_MODEL_FOR_CHAT_COMPLETIONS :: string where
  "OPENAI_VISION_MODEL_FOR_CHAT_COMPLETIONS = ''gpt-4.1-nano-2025-04-14''"

text \<open>The request body sent to the provider, for an image and a prompt.\<close>

definition payload :: "jsval \<Rightarrow> jsval \<Rightarrow> jsval" where
  "payload image_data_url prompt =
     JObj [(''model'', JStr OPENAI_VISION_MODEL_FOR_CHAT_COMPLETIONS),
           (''messages'', JArr [JObj [(''role'', JStr ''user''),
              (''content'', JArr [
                 JObj [(''type'', JStr ''text''),
                       (''text'', if truthy prompt then prompt
                                  else JStr ''Describe what you see in this image.'')],
                 JObj [(''type'', JStr ''image_url''),
                       (''image_url'', JObj [(''url'', image_data_url)])]])]]),
           (''max_tokens'', JNum ''300'')]"

text \<open>\<^verbatim>\<open>data.choices?.[0]?.message?.content\<close>.\<close>

definition first_choice :: "jsval \<Rightarrow> js_exn + jsval" where
  "first_choice data =
     (case get data ''choices'' of
        Inl e \<Rightarrow> Inl e
      | Inr choices \<Rightarrow>
          if nullish choices then Inr JUndefined
          else let c = index0 choices in
            if nullish c then Inr JUndefined
            else let m = member c ''message'' in
              if nullish m then Inr JUndefined else Inr (member m ''content''))"

text \<open>
  Destructuring \<^verbatim>\<open>{ image_data_url, prompt }\<close> out of \<open>null\<close> throws (the message is
  worded as V8 words it).
\<close>

definition destructure :: "jsval \<Rightarrow> js_exn + jsval \<times> jsval" where
  "destructure body =
     (if nullish body
      then Inl (TypeError (''Cannot destructure property '' @ [CHR 39] @ ''image_data_url'' @ [CHR 39]
                  @ '' of '' @ [CHR 39] @ ''(intermediate value)'' @ [CHR 39] @ '' as it is ''
                  @ ToString body @ ''.''))
      else Inr (member body ''image_data_url'', member body ''prompt''))"

text \<open>
  The \<^verbatim>\<open>try\<close> block of \<^verbatim>\<open>POST\<close>. \<open>request_json\<close> is what \<^verbatim>\<open>request.json()\<close> gives,
  \<open>fetch_openai\<close> the provider: it answers an authorisation header and a body. The second
  component lists the requests made to the provider.
\<close>

definition POST_try ::
    "string \<Rightarrow> (js_exn + jsval) \<Rightarrow> (string \<Rightarrow> jsval \<Rightarrow> js_exn + fetch_response) \<Rightarrow>
     (js_exn + next_response) \<times> (string \<times> jsval) list" where
  "POST_try key request_json fetch_openai =
     (case request_json of
        Inl e \<Rightarrow> (Inl e, [])
      | Inr body \<Rightarrow>
          (case destructure body of
             Inl e \<Rightarrow> (Inl e, [])
           | Inr (image_data_url, prompt) \<Rightarrow>
               if \<not> truthy image_data_url
               then (NextResponse_json (JObj [(''error'', JStr ''No image data provided.'')]) 400, [])
               else
                 let req = (''Bearer '' @ key, payload image_data_url prompt) in
                 (case fetch_openai (fst req) (snd req) of
                    Inl e \<Rightarrow> (Inl e, [req])
                  | Inr openaiResponse \<Rightarrow>
                      if \<not> ok openaiResponse then
                        (case json_body openaiResponse of
                           Inl e \<Rightarrow> (Inl e, [req])
                         | Inr errorBody \<Rightarrow>
                             (NextResponse_json
                                (JObj [(''error'', JStr ''Failed to get description from OpenAI.''),
                                       (''details'', errorBody)])
                                (status openaiResponse), [req]))
                      else
                        (case json_body openaiResponse of
                           Inl e \<Rightarrow> (Inl e, [req])
                         | Inr data \<Rightarrow>
                             (case first_choice data of
                                Inl e \<Rightarrow> (Inl e, [req])
                              | Inr description \<Rightarrow>
                                  if truthy description
                                  then (NextResponse_json (JObj [(''description'', description)]) 200, [req])
                                  else (NextResponse_json
                                          (JObj [(''error'', JStr ''No description received from OpenAI.'')])
                                          500, [req]))))))"

text \<open>
  \<^verbatim>\<open>POST\<close>: the key is tested first (\<open>undefined\<close> and the empty string are falsy); whatever
  the \<^verbatim>\<open>try\<close> block throws becomes a 500.
\<close>

definition POST ::
    "string option \<Rightarrow> (js_exn + jsval) \<Rightarrow> (string \<Rightarrow> jsval \<Rightarrow> js_exn + fetch_response) \<Rightarrow>
     next_response \<times> (string \<times> jsval) list" where
  "POST OPENAI_API_KEY request_json fetch_openai =
     (case OPENAI_API_KEY of
        None \<Rightarrow>
          (\<lparr>code = 500, content = JObj [(''error'', JStr ''OpenAI API key not configured on server.'')]\<rparr>, [])
      | Some key \<Rightarrow>
          if key = []
          then (\<lparr>code = 500, content = JObj [(''error'', JStr ''OpenAI API key not configured on server.'')]\<rparr>, [])
          else
            (case POST_try key request_json fetch_openai of
               (Inr r, reqs) \<Rightarrow> (r, reqs)
             | (Inl e, reqs) \<Rightarrow>
                 (\<lparr>code = 500, content = JObj [(''error'', JStr ''Internal server error.''),
                                                 (''details'', JStr (message e))]\<rparr>, reqs)))"

section \<open>Teardown\<close>

fun update_at :: "nat \<Rightarrow> ('a \<Rightarrow> 'a) \<Rightarrow> 'a list \<Rightarrow> 'a list" where
  "update_at i f [] = []"
| "update_at 0 f (x # xs) = f x # xs"
| "update_at (Suc i) f (x # xs) = x # update_at i f xs"

text \<open>
  \<^verbatim>\<open>pc.close()\<close> closes the connection and, with it, the data channels it owns;
  \<^verbatim>\<open>dc.close()\<close> starts closing a channel that is not closed yet; \<^verbatim>\<open>track.stop()\<close> ends a
  track. None of them throws.
\<close>

definition close_pc :: "nat \<Rightarrow> session \<Rightarrow> session" where
  "close_pc p s =
     s\<lparr>pcs := update_at p (\<lambda>st. PcClosed) (pcs s),
       dcs := map (\<lambda>c. if owner c = p then c\<lparr>readyState := DcClosed\<rparr> else c) (dcs s)\<rparr>"

definition close_dc :: "nat \<Rightarrow> session \<Rightarrow> session" where
  "close_dc c s =
     s\<lparr>dcs := update_at c
         (\<lambda>ch. if readyState ch = DcConnecting \<or> readyState ch = DcOpen
                then ch\<lparr>readyState := DcClosing\<rparr> else ch) (dcs s)\<rparr>"

definition stop_tracks :: "nat list \<Rightarrow> session \<Rightarrow> session" where
  "stop_tracks ts s = s\<lparr>ended := ended s \<union> set ts\<rparr>"

text \<open>\<^verbatim>\<open>disconnectFromOpenAI\<close> of \<^verbatim>\<open>RealtimeAssistant.tsx\<close>.\<close>

definition disconnectFromOpenAI :: "session \<Rightarrow> session" where
  "disconnectFromOpenAI s =
     (let s1 = (case peerConnectionRef s of
                  None \<Rightarrow> s
                | Some p \<Rightarrow> (close_pc p s)\<lparr>peerConnectionRef := None\<rparr>);
          s2 = (case dataChannelRef s1 of
                  None \<Rightarrow> s1
                | Some c \<Rightarrow> (close_dc c s1)\<lparr>dataChannelRef := None\<rparr>);
          s3 = (case localAudioStreamRef s2 of
                  None \<Rightarrow> s2
                | Some ts \<Rightarrow> (stop_tracks ts s2)\<lparr>localAudioStreamRef := None\<rparr>);
          s4 = (case localVideoStreamRef s3 of
                  None \<Rightarrow> s3
                | Some ts \<Rightarrow>
                    (stop_tracks ts s3)
                      \<lparr>videoElRef := (case videoElRef s3 of
                                       None \<Rightarrow> None
                                     | Some v \<Rightarrow> Some (v\<lparr>srcObject := None\<rparr>)),
                       localVideoStreamRef := None\<rparr>)
      in s4\<lparr>isConnected := False, transcription := JStr [], responseText := JStr [],
            sceneDescription := JStr []\<rparr>)"

text \<open>The copy in \<^verbatim>\<open>describe-scene/route.ts\<close>.\<close>

definition disconnectFromOpenAI_route :: "session \<Rightarrow> session" where
  "disconnectFromOpenAI_route s =
     (let s1 = (case peerConnectionRef s of
                  None \<Rightarrow> s
                | Some p \<Rightarrow> (close_pc p s)\<lparr>peerConnectionRef := None\<rparr>);
          s2 = (case dataChannelRef s1 of
                  None \<Rightarrow> s1
                | Some c \<Rightarrow> (close_dc c s1)\<lparr>dataChannelRef := None\<rparr>);
          s3 = (case localStreamRef s2 of
                  None \<Rightarrow> s2
                | Some ts \<Rightarrow> (stop_tracks ts s2)\<lparr>localStreamRef := None\<rparr>)
      in s3\<lparr>isConnected := False, transcription := JStr [], responseText := JStr []\<rparr>)"

section \<open>Describing the scene\<close>

text \<open>
  The \<^verbatim>\<open>readyState\<close> of the channel a reference names. A reference always names a stored
  channel; past the store the model answers \<open>closed\<close>.
\<close>

definition ready :: "session \<Rightarrow> nat \<Rightarrow> dc_state" where
  "ready s c = (if c < length (dcs s) then readyState (dcs s ! c) else DcClosed)"

definition createItemEvent :: "jsval \<Rightarrow> jsval" where
  "createItemEvent textToSpeak =
     JObj [(''type'', JStr ''conversation.item.create''),
           (''item'', JObj [(''type'', JStr ''message''), (''role'', JStr ''user''),
              (''content'', JArr [JObj [(''type'', JStr ''input_text''),
                                        (''text'', textToSpeak)]])])]"

definition createResponseEvent :: jsval where
  "createResponseEvent =
     JObj [(''type'', JStr ''response.create''),
           (''response'', JObj [(''modalities'', JArr [JStr ''audio'', JStr ''text''])])]"

text \<open>
  \<^verbatim>\<open>speakText\<close>: nothing unless the channel is there and open; then the response text is
  cleared and the two commands are sent, in this order. \<^verbatim>\<open>send\<close> on an open channel is
  taken to succeed.
\<close>

definition speakText :: "jsval \<Rightarrow> session \<Rightarrow> session" where
  "speakText textToSpeak s =
     (case dataChannelRef s of
        None \<Rightarrow> s
      | Some c \<Rightarrow>
          if ready s c \<noteq> DcOpen then s
          else s\<lparr>responseText := JStr [],
                 sent := sent s @ [(c, createItemEvent textToSpeak), (c, createResponseEvent)]\<rparr>)"

text \<open>
  What the browser and the network answer during one \<^verbatim>\<open>requestSceneDescription\<close>: the
  video's \<^verbatim>\<open>videoWidth\<close> and \<^verbatim>\<open>videoHeight\<close> when the capture starts and after the 100 ms
  wait, whether the canvas gives a 2d context, the data URL it encodes, and the
  \<^verbatim>\<open>/api/describe-scene\<close> endpoint as a function of the request body.
\<close>

record scene_env =
  size_at_call :: "nat \<times> nat"
  size_after_wait :: "nat \<times> nat"
  getContext :: bool
  toDataURL :: string
  fetch_describe_scene :: "jsval \<Rightarrow> js_exn + fetch_response"

text \<open>The capture: one wait if a dimension is zero, then failure if one still is.\<close>

definition capture_frame :: "scene_env \<Rightarrow> js_exn + string" where
  "capture_frame env =
     (if (fst (size_at_call env) = 0 \<or> snd (size_at_call env) = 0) \<and>
         (fst (size_after_wait env) = 0 \<or> snd (size_after_wait env) = 0)
      then Inl (Error ''Video dimensions not available'')
      else if \<not> getContext env then Inl (Error ''Could not get canvas context'')
      else Inr (toDataURL env))"

text \<open>\<^verbatim>\<open>new Error(v || fallback)\<close>: the message is the string of the value chosen.\<close>

definition Error_or :: "jsval \<Rightarrow> string \<Rightarrow> js_exn" where
  "Error_or v fallback = Error (if truthy v then ToString v else fallback)"

text \<open>The call to the endpoint, up to the description it returns.\<close>

definition describe_scene :: "scene_env \<Rightarrow> string \<Rightarrow> js_exn + jsval" where
  "describe_scene env imageDataUrl =
     (case fetch_describe_scene env
             (JObj [(''image_data_url'', JStr imageDataUrl),
                    (''prompt'', JStr ''Describe this scene in detail, focusing on what you can see in the video feed.'')]) of
        Inl e \<Rightarrow> Inl e
      | Inr response \<Rightarrow>
          if \<not> ok response then
            (case json_body response of
               Inl e \<Rightarrow> Inl e
             | Inr errorData \<Rightarrow>
                 (case get errorData ''error'' of
                    Inl e \<Rightarrow> Inl e
                  | Inr err \<Rightarrow> Inl (Error_or err ''Failed to get scene description'')))
          else
            (case json_body response of
               Inl e \<Rightarrow> Inl e
             | Inr result \<Rightarrow>
                 (case get result ''description'' of
                    Inl e \<Rightarrow> Inl e
                  | Inr description \<Rightarrow>
                      if truthy description then Inr description
                      else Inl (Error ''No description received from the server''))))"

text \<open>
  \<^verbatim>\<open>requestSceneDescription\<close>: the two guards, then the \<^verbatim>\<open>try\<close> block with its
  \<^verbatim>\<open>catch\<close> and \<^verbatim>\<open>finally\<close>.
\<close>

definition requestSceneDescription :: "scene_env \<Rightarrow> session \<Rightarrow> session" where
  "requestSceneDescription env s =
     (if \<not> isConnected s
      then s\<lparr>alerts := alerts s @ [''Please connect the assistant first.'']\<rparr>
      else if localVideoStreamRef s = None \<or>
              (case videoElRef s of None \<Rightarrow> True | Some v \<Rightarrow> srcObject v = None)
      then s\<lparr>alerts := alerts s @ [''Video stream not available.''],
             videoError := Some ''Video stream not available to capture frame.''\<rparr>
      else
        let s1 = s\<lparr>isProcessingScene := True,
                   sceneDescription := JStr ''Capturing frame and analyzing scene...'',
                   videoError := None\<rparr>;
            s2 = (case (case capture_frame env of
                          Inl e \<Rightarrow> Inl e
                        | Inr imageDataUrl \<Rightarrow> describe_scene env imageDataUrl) of
                    Inr description \<Rightarrow> speakText description (s1\<lparr>sceneDescription := description\<rparr>)
                  | Inl e \<Rightarrow>
                      s1\<lparr>sceneDescription := JStr (''Error: '' @ message e),
                         videoError := Some (''Error during scene analysis: '' @ message e)\<rparr>)
        in s2\<lparr>isProcessingScene := False\<rparr>)"

section \<open>Connecting\<close>

text \<open>
  What the browser and the network answer during one \<^verbatim>\<open>connectToOpenAI\<close>, step by step:
  the \<^verbatim>\<open>/api/openai-session\<close> fetch, \<^verbatim>\<open>getUserMedia\<close>, the video element's \<^verbatim>\<open>play()\<close>,
  \<^verbatim>\<open>createOffer\<close> (the offer's SDP), \<^verbatim>\<open>setLocalDescription\<close>, the POST of the offer to the
  realtime endpoint (answering an authorisation header and the SDP), and
  \<^verbatim>\<open>setRemoteDescription\<close> (answering the SDP it is given). \<open>Inl\<close> is a rejection. The
  steps run in the source's order with nothing in between.
\<close>

record connect_env =
  fetch_session :: "js_exn + fetch_response"
  getUserMedia :: "js_exn + unit"
  play :: "js_exn + unit"
  createOffer :: "js_exn + string"
  setLocalDescription :: "js_exn + unit"
  fetch_realtime :: "string \<Rightarrow> string \<Rightarrow> js_exn + fetch_response"
  setRemoteDescription :: "string \<Rightarrow> js_exn + unit"

text \<open>\<^verbatim>\<open>peerConnectionRef.current?.connectionState === "connected"\<close>.\<close>

definition connected_already :: "session \<Rightarrow> bool" where
  "connected_already s =
     (case peerConnectionRef s of
        None \<Rightarrow> False
      | Some p \<Rightarrow> p < length (pcs s) \<and> pcs s ! p = PcConnected)"

text \<open>\<^verbatim>\<open>sessionData.client_secret.value\<close>.\<close>

definition client_secret_value :: "jsval \<Rightarrow> js_exn + jsval" where
  "client_secret_value sessionData =
     (case get sessionData ''client_secret'' of
        Inl e \<Rightarrow> Inl e
      | Inr cs \<Rightarrow> get cs ''value'')"

text \<open>The ephemeral key, as \<^verbatim>\<open>RealtimeAssistant.tsx\<close> obtains it.\<close>

definition ephemeral_key :: "connect_env \<Rightarrow> js_exn + jsval" where
  "ephemeral_key env =
     (case fetch_session env of
        Inl e \<Rightarrow> Inl e
      | Inr tokenResponse \<Rightarrow>
          if \<not> ok tokenResponse then
            (case json_body tokenResponse of
               Inl e \<Rightarrow> Inl e
             | Inr errorData \<Rightarrow>
                 (case get errorData ''error'' of
                    Inl e \<Rightarrow> Inl e
                  | Inr err \<Rightarrow> Inl (Error_or err ''Failed to get session token'')))
          else
            (case json_body tokenResponse of
               Inl e \<Rightarrow> Inl e
             | Inr sessionData \<Rightarrow> client_secret_value sessionData))"

definition new_RTCPeerConnection :: "session \<Rightarrow> session" where
  "new_RTCPeerConnection s =
     s\<lparr>pcs := pcs s @ [PcNew], peerConnectionRef := Some (length (pcs s))\<rparr>"

definition createDataChannel :: "nat \<Rightarrow> session \<Rightarrow> session" where
  "createDataChannel p s =
     s\<lparr>dcs := dcs s @ [\<lparr>owner = p, readyState = DcConnecting\<rparr>],
       dataChannelRef := Some (length (dcs s))\<rparr>"

definition handleVideoError :: "js_exn \<Rightarrow> session \<Rightarrow> session" where
  "handleVideoError e s =
     (let s1 = s\<lparr>videoError := Some (message e), isVideoEnabled := False\<rparr>
      in case localVideoStreamRef s1 of
           None \<Rightarrow> s1
         | Some ts \<Rightarrow> (stop_tracks ts s1)\<lparr>localVideoStreamRef := None\<rparr>)"

text \<open>
  \<^verbatim>\<open>initializeVideoStream\<close>: one audio and one video track are acquired, numbered
  \<open>ntracks s\<close> and the next; the first component is the exception it rethrows, if any.
\<close>

definition initializeVideoStream :: "connect_env \<Rightarrow> session \<Rightarrow> js_exn option \<times> session" where
  "initializeVideoStream env s =
     (let s0 = s\<lparr>videoError := None\<rparr> in
      case getUserMedia env of
        Inl e \<Rightarrow> (Some e, handleVideoError e s0)
      | Inr u \<Rightarrow>
          let s1 = s0\<lparr>ntracks := ntracks s0 + 2,
                     localAudioStreamRef := Some [ntracks s0],
                     localVideoStreamRef := Some [ntracks s0 + 1]\<rparr>
          in case videoElRef s1 of
               None \<Rightarrow> (None, s1)
             | Some el \<Rightarrow>
                 let s2 = s1\<lparr>videoElRef := Some (el\<lparr>srcObject := Some [ntracks s0 + 1]\<rparr>)\<rparr>;
                     s3 = (case play env of Inl e \<Rightarrow> handleVideoError e s2 | Inr u \<Rightarrow> s2)
                 in (None, s3\<lparr>isVideoEnabled := True\<rparr>))"

text \<open>The offer is created, set, and posted with the key in the header.\<close>

definition post_offer :: "connect_env \<Rightarrow> jsval \<Rightarrow> js_exn + fetch_response" where
  "post_offer env EPHEMERAL_KEY =
     (case createOffer env of
        Inl e \<Rightarrow> Inl e
      | Inr sdp \<Rightarrow>
          (case setLocalDescription env of
             Inl e \<Rightarrow> Inl e
           | Inr u \<Rightarrow> fetch_realtime env (''Bearer '' @ ToString EPHEMERAL_KEY) sdp))"

definition accept_answer :: "connect_env \<Rightarrow> fetch_response \<Rightarrow> js_exn + unit" where
  "accept_answer env sdpResponse =
     (case text_body sdpResponse of
        Inl e \<Rightarrow> Inl e
      | Inr answerSdp \<Rightarrow> setRemoteDescription env answerSdp)"

text \<open>The negotiation of \<^verbatim>\<open>RealtimeAssistant.tsx\<close>: an answer that is not ok is thrown.\<close>

definition negotiate :: "connect_env \<Rightarrow> jsval \<Rightarrow> js_exn + unit" where
  "negotiate env EPHEMERAL_KEY =
     (case post_offer env EPHEMERAL_KEY of
        Inl e \<Rightarrow> Inl e
      | Inr sdpResponse \<Rightarrow>
          if \<not> ok sdpResponse then
            (case text_body sdpResponse of
               Inl e \<Rightarrow> Inl e
             | Inr t \<Rightarrow> Inl (Error (''Failed to get SDP answer: '' @ t)))
          else accept_answer env sdpResponse)"

text \<open>The \<^verbatim>\<open>try\<close> block of \<^verbatim>\<open>connectToOpenAI\<close> in \<^verbatim>\<open>RealtimeAssistant.tsx\<close>.\<close>

definition connect_try :: "connect_env \<Rightarrow> session \<Rightarrow> js_exn option \<times> session" where
  "connect_try env s =
     (case ephemeral_key env of
        Inl e \<Rightarrow> (Some e, s)
      | Inr EPHEMERAL_KEY \<Rightarrow>
          let s1 = new_RTCPeerConnection s in
          (case initializeVideoStream env s1 of
             (Some e, s2) \<Rightarrow> (Some e, s2)
           | (None, s2) \<Rightarrow>
               let s3 = createDataChannel (length (pcs s)) s2 in
               (case negotiate env EPHEMERAL_KEY of
                  Inl e \<Rightarrow> (Some e, s3)
                | Inr u \<Rightarrow> (None, s3\<lparr>isConnected := True\<rparr>))))"

text \<open>
  \<^verbatim>\<open>connectToOpenAI\<close> of \<^verbatim>\<open>RealtimeAssistant.tsx\<close>: the guard, the resets, the \<^verbatim>\<open>try\<close>
  block, and the \<^verbatim>\<open>catch\<close> that alerts and disconnects.
\<close>

definition connectToOpenAI :: "connect_env \<Rightarrow> session \<Rightarrow> session" where
  "connectToOpenAI env s =
     (if connected_already s then s
      else
        let s0 = s\<lparr>transcription := JStr [], responseText := JStr [],
                   sceneDescription := JStr [], videoError := None\<rparr>
        in case connect_try env s0 of
             (None, s') \<Rightarrow> s'
           | (Some e, s') \<Rightarrow>
               disconnectFromOpenAI
                 (s'\<lparr>alerts := alerts s' @ [''Connection error: '' @ message e]\<rparr>))"

text \<open>
  The \<^verbatim>\<open>try\<close> block of the copy in \<^verbatim>\<open>describe-scene/route.ts\<close>. It asks for the
  microphone only, and on an answer that is not ok it alerts and returns: after the key
  request without more, after the offer with the connection closed.
\<close>

definition connect_try_route :: "connect_env \<Rightarrow> session \<Rightarrow> js_exn option \<times> session" where
  "connect_try_route env s =
     (case fetch_session env of
        Inl e \<Rightarrow> (Some e, s)
      | Inr tokenResponse \<Rightarrow>
          if \<not> ok tokenResponse then
            (case json_body tokenResponse of
               Inl e \<Rightarrow> (Some e, s)
             | Inr errorData \<Rightarrow>
                 (case get errorData ''error'' of
                    Inl e \<Rightarrow> (Some e, s)
                  | Inr err \<Rightarrow>
                      (None, s\<lparr>alerts := alerts s @
                         [''Failed to get session token: '' @
                            (if truthy err then ToString err else ''Unknown error'')]\<rparr>)))
          else
            (case json_body tokenResponse of
               Inl e \<Rightarrow> (Some e, s)
             | Inr sessionData \<Rightarrow>
                 (case client_secret_value sessionData of
                    Inl e \<Rightarrow> (Some e, s)
                  | Inr EPHEMERAL_KEY \<Rightarrow>
                      let s1 = new_RTCPeerConnection s in
                      (case getUserMedia env of
                         Inl e \<Rightarrow> (Some e, s1)
                       | Inr u \<Rightarrow>
                           let s2 = s1\<lparr>ntracks := ntracks s1 + 1,
                                      localStreamRef := Some [ntracks s1]\<rparr>;
                               s3 = createDataChannel (length (pcs s)) s2
                           in (case post_offer env EPHEMERAL_KEY of
                                 Inl e \<Rightarrow> (Some e, s3)
                               | Inr sdpResponse \<Rightarrow>
                                   if \<not> ok sdpResponse then
                                     (case text_body sdpResponse of
                                        Inl e \<Rightarrow> (Some e, s3)
                                      | Inr errorText \<Rightarrow>
                                          (None, close_pc (length (pcs s))
                                             (s3\<lparr>alerts := alerts s3 @
                                                [''Failed to get SDP answer: '' @ errorText]\<rparr>)))
                                   else
                                     (case accept_answer env sdpResponse of
                                        Inl e \<Rightarrow> (Some e, s3)
                                      | Inr u \<Rightarrow> (None, s3\<lparr>isConnected := True\<rparr>)))))))"

text \<open>
  \<^verbatim>\<open>connectToOpenAI\<close> of that copy: its \<^verbatim>\<open>catch\<close> alerts, closes the connection the
  reference names, and sets \<^verbatim>\<open>isConnected\<close> to false.
\<close>

definition connectToOpenAI_route :: "connect_env \<Rightarrow> session \<Rightarrow> session" where
  "connectToOpenAI_route env s =
     (if connected_already s then s
      else
        case connect_try_route env s of
          (None, s') \<Rightarrow> s'
        | (Some e, s') \<Rightarrow>
            let s1 = s'\<lparr>alerts := alerts s' @ [''Error initializing WebRTC: '' @ message e]\<rparr>;
                s2 = (case peerConnectionRef s1 of None \<Rightarrow> s1 | Some p \<Rightarrow> close_pc p s1)
            in s2\<lparr>isConnected := False\<rparr>)"

text \<open>
  The two notifications the claims' scenarios need: \<^verbatim>\<open>pc.onconnectionstatechange\<close>, which
  copies the new state into \<^verbatim>\<open>isConnected\<close>, and the data channel opening.
\<close>

definition onconnectionstatechange :: "nat \<Rightarrow> pc_state \<Rightarrow> session \<Rightarrow> session" where
  "onconnectionstatechange p st s =
     s\<lparr>pcs := update_at p (\<lambda>old. st) (pcs s), isConnected := (st = PcConnected)\<rparr>"

definition channel_opens :: "nat \<Rightarrow> session \<Rightarrow> session" where
  "channel_opens c s = s\<lparr>dcs := update_at c (\<lambda>ch. ch\<lparr>readyState := DcOpen\<rparr>) (dcs s)\<rparr>"

text \<open>
  Answers under which connecting succeeds, and the component in a call: connected from
  \<open>mounted\<close> under them, with the connection reported connected and the channel open.
\<close>

definition answers :: connect_env where
  "answers =
     \<lparr>fetch_session = Inr \<lparr>status = 200,
          json_body = Inr (JObj [(''client_secret'', JObj [(''value'', JStr ''ek_test'')])]),
          text_body = Inr []\<rparr>,
      getUserMedia = Inr (),
      play = Inr (),
      createOffer = Inr ''v=0 offer'',
      setLocalDescription = Inr (),
      fetch_realtime = (\<lambda>auth sdp. Inr \<lparr>status = 201, json_body = Inl (SyntaxError ''Unexpected token v''),
                                           text_body = Inr ''v=0 answer''\<rparr>),
      setRemoteDescription = (\<lambda>sdp. Inr ())\<rparr>"

definition in_call :: session where
  "in_call = channel_opens 0 (onconnectionstatechange 0 PcConnected (connectToOpenAI answers mounted))"

text \<open>The same for the copy in \<^verbatim>\<open>describe-scene/route.ts\<close>, which holds the microphone only.\<close>

definition in_call_route :: session where
  "in_call_route =
     channel_opens 0 (onconnectionstatechange 0 PcConnected (connectToOpenAI_route answers mounted))"

text \<open>
  Answers under which a scene is described: the video has its dimensions, the canvas
  encodes a frame, and the endpoint returns a description.
\<close>

definition camera :: scene_env where
  "camera =
     \<lparr>size_at_call = (1280, 720), size_after_wait = (1280, 720), getContext = True,
      toDataURL = ''data:image/jpeg;base64,AA=='',
      fetch_describe_scene =
        (\<lambda>body. Inr \<lparr>status = 200,
                         json_body = Inr (JObj [(''description'', JStr ''A red chair'')]),
                         text_body = Inr []\<rparr>)\<rparr>"

section \<open>The component in a call\<close>

lemma in_call_state:
  "in_call =
     \<lparr>isConnected = True, transcription = JStr [], responseText = JStr [],
      sceneDescription = JStr [], isVideoEnabled = True, videoError = None,
      isProcessingScene = False, peerConnectionRef = Some 0, dataChannelRef = Some 0,
      localAudioStreamRef = Some [0], localVideoStreamRef = Some [1], localStreamRef = None,
      videoElRef = Some \<lparr>srcObject = Some [1]\<rparr>, pcs = [PcConnected],
      dcs = [\<lparr>owner = 0, readyState = DcOpen\<rparr>], ntracks = 2, ended = {},
      alerts = [], sent = []\<rparr>"
  by (simp add: in_call_def channel_opens_def onconnectionstatechange_def connectToOpenAI_def
      connected_already_def mounted_def connect_try_def ephemeral_key_def answers_def ok_def
      client_secret_value_def get_def nullish_def new_RTCPeerConnection_def
      initializeVideoStream_def createDataChannel_def negotiate_def post_offer_def
      accept_answer_def Let_def)

lemma in_call_route_state:
  "in_call_route =
     \<lparr>isConnected = True, transcription = JStr [], responseText = JStr [],
      sceneDescription = JStr [], isVideoEnabled = False, videoError = None,
      isProcessingScene = False, peerConnectionRef = Some 0, dataChannelRef = Some 0,
      localAudioStreamRef = None, localVideoStreamRef = None, localStreamRef = Some [0],
      videoElRef = Some \<lparr>srcObject = None\<rparr>, pcs = [PcConnected],
      dcs = [\<lparr>owner = 0, readyState = DcOpen\<rparr>], ntracks = 1, ended = {},
      alerts = [], sent = []\<rparr>"
  by (simp add: in_call_route_def channel_opens_def onconnectionstatechange_def
      connectToOpenAI_route_def connected_already_def mounted_def connect_try_route_def
      answers_def ok_def client_secret_value_def get_def nullish_def new_RTCPeerConnection_def
      createDataChannel_def post_offer_def accept_answer_def Let_def)

section \<open>Streamed text is rebuilt from its deltas\<close>

lemma member_type_not_nullish: "member msg k = JStr t \<Longrightarrow> \<not> nullish msg"
  by (cases msg) (simp_all add: nullish_def)

lemma js_plus_strings: "js_plus num_add (JStr a) (JStr b) = JStr (a @ b)"
  by (simp add: js_plus_def)

lemma delta_step:
  assumes "transcript_delta ev d"
  shows "fst (handleDataChannelMessage num_add s ev) =
           s\<lparr>transcription := js_plus num_add (transcription s) (JStr d)\<rparr>"
    and "fst (handleDataChannelMessage_route num_add s ev) =
           s\<lparr>transcription := js_plus num_add (transcription s) (JStr d)\<rparr>"
  using assms
  by (auto simp: transcript_delta_def handleDataChannelMessage_def
      handleDataChannelMessage_route_def get_def
      dest: member_type_not_nullish split: message_event.splits)

lemma done_step:
  assumes "member fin ''type'' = JStr ''response.done''"
  shows "fst (handleDataChannelMessage num_add s (JSONText fin)) =
           (if truthy (input_transcription fin)
            then s\<lparr>transcription := input_transcription fin\<rparr> else s)"
  using assms member_type_not_nullish[OF assms]
  by (simp add: handleDataChannelMessage_def get_def)

lemma done_step_route:
  assumes "member fin ''type'' = JStr ''response.done''"
  shows "transcription (fst (handleDataChannelMessage_route num_add s (JSONText fin))) =
           (if truthy (input_transcription fin)
            then input_transcription fin else transcription s)"
  using assms member_type_not_nullish[OF assms]
  by (simp add: handleDataChannelMessage_route_def get_def Let_def split: sum.splits)

lemma deliver_append: "deliver h s (xs @ ys) = deliver h (deliver h s xs) ys"
  by (induction xs arbitrary: s) simp_all

lemma deliver_deltas:
  assumes "list_all2 transcript_delta evs ds"
  shows "deliver (handleDataChannelMessage num_add) (s\<lparr>transcription := JStr acc\<rparr>) evs
           = s\<lparr>transcription := JStr (acc @ concat ds)\<rparr>"
    and "deliver (handleDataChannelMessage_route num_add) (s\<lparr>transcription := JStr acc\<rparr>) evs
           = s\<lparr>transcription := JStr (acc @ concat ds)\<rparr>"
  using assms
proof (induction evs ds arbitrary: acc rule: list_all2_induct)
  case Nil
  {
    case 1 show ?case by simp
  next
    case 2 show ?case by simp
  }
next
  case (Cons ev d evs ds)
  {
    case 1 with Cons show ?case by (simp add: delta_step js_plus_strings)
  next
    case 2 with Cons show ?case by (simp add: delta_step js_plus_strings)
  }
qed

text \<open>
  C1, as the code has it. Let the frames \<open>evs\<close> be \<^verbatim>\<open>response.audio_transcript.delta\<close>
  events carrying the strings \<open>ds\<close>, in this order, and let a \<^verbatim>\<open>response.done\<close> without
  a final transcription field follow them. Delivered in order to a component whose
  transcription holds the string \<open>acc\<close>, they leave it holding \<open>acc\<close> followed by
  \<open>d1 + d2 + ... + dn\<close>: each delta once, in arrival order. That is the concatenation of
  the deltas when the accumulator was empty before the first of them (\<open>acc = []\<close>), as
  \<^verbatim>\<open>connectToOpenAI\<close> of \<^verbatim>\<open>RealtimeAssistant.tsx\<close> and \<^verbatim>\<open>disconnectFromOpenAI\<close> leave it.
  Both copies of the handler do so.
\<close>

theorem transcript_deltas_concatenate:
  assumes "list_all2 transcript_delta evs ds"
    and "member fin ''type'' = JStr ''response.done''"
    and "input_transcription fin = JUndefined"
  shows "transcription
           (deliver (handleDataChannelMessage num_add) (s\<lparr>transcription := JStr acc\<rparr>)
              (evs @ [JSONText fin])) = JStr (acc @ concat ds) \<and>
         transcription
           (deliver (handleDataChannelMessage_route num_add) (s\<lparr>transcription := JStr acc\<rparr>)
              (evs @ [JSONText fin])) = JStr (acc @ concat ds)"
proof -
  have "truthy (input_transcription fin) = False"
    using assms(3) by simp
  then show ?thesis
    using assms(1,2)
    by (simp add: deliver_append deliver_deltas done_step done_step_route)
qed

theorem transcript_deltas_concatenate_witness:
  "transcription
     (deliver (handleDataChannelMessage (\<lambda>a b. JNum ''NaN'')) (mounted\<lparr>transcription := JStr []\<rparr>)
        ([JSONText (JObj [(''type'', JStr ''response.audio_transcript.delta''), (''delta'', JStr ''Hel'')]),
          JSONText (JObj [(''type'', JStr ''response.audio_transcript.delta''), (''delta'', JStr ''lo'')])]
         @ [JSONText (JObj [(''type'', JStr ''response.done''), (''response'', JObj [])])]))
     = JStr ([] @ concat [''Hel'', ''lo''])"
proof -
  have deltas: "list_all2 transcript_delta
      [JSONText (JObj [(''type'', JStr ''response.audio_transcript.delta''), (''delta'', JStr ''Hel'')]),
       JSONText (JObj [(''type'', JStr ''response.audio_transcript.delta''), (''delta'', JStr ''lo'')])]
      [''Hel'', ''lo'']"
    by (simp add: transcript_delta_def)
  have done1: "member (JObj [(''type'', JStr ''response.done''), (''response'', JObj [])]) ''type''
      = JStr ''response.done''"
    by simp
  have done2: "input_transcription (JObj [(''type'', JStr ''response.done''), (''response'', JObj [])])
      = JUndefined"
    by (simp add: input_transcription_def nullish_def)
  from transcript_deltas_concatenate [OF deltas done1 done2] show ?thesis
    by blast
qed

text \<open>
  The claim as stated fails from the second turn on: no frame empties the transcription,
  so the deltas of a turn are appended to what the turns before it left. After the turn
  \<open>''Hello''\<close>, the turn whose only delta is \<open>''World''\<close> leaves \<open>''HelloWorld''\<close>.
\<close>

theorem transcript_second_turn_counterexample:
  "transcription
     (deliver (handleDataChannelMessage (\<lambda>a b. JNum ''NaN'')) in_call
        [JSONText (JObj [(''type'', JStr ''response.audio_transcript.delta''), (''delta'', JStr ''Hello'')]),
         JSONText (JObj [(''type'', JStr ''response.done''), (''response'', JObj [])])])
     = JStr ''Hello'' \<and>
   transcription
     (deliver (handleDataChannelMessage (\<lambda>a b. JNum ''NaN'')) in_call
        [JSONText (JObj [(''type'', JStr ''response.audio_transcript.delta''), (''delta'', JStr ''Hello'')]),
         JSONText (JObj [(''type'', JStr ''response.done''), (''response'', JObj [])]),
         JSONText (JObj [(''type'', JStr ''response.audio_transcript.delta''), (''delta'', JStr ''World'')]),
         JSONText (JObj [(''type'', JStr ''response.done''), (''response'', JObj [])])])
     = JStr ''HelloWorld'' \<and>
   JStr ''HelloWorld'' \<noteq> JStr (concat [''World''])"
  by (simp add: in_call_state handleDataChannelMessage_def get_def nullish_def
      input_transcription_def js_plus_def)

section \<open>The final transcription replaces the partial one\<close>

text \<open>
  C2, as the code has it. A \<^verbatim>\<open>response.done\<close> whose final input transcription is truthy
  (for a string: not empty) leaves the transcription equal to that value, whatever the
  deltas had built. The handler tests the field with \<^verbatim>\<open>if (...)\<close>, so a final
  transcription that is the empty string replaces nothing.
\<close>

theorem final_transcription_replaces:
  assumes "member fin ''type'' = JStr ''response.done''"
    and "truthy (input_transcription fin)"
  shows "transcription (fst (handleDataChannelMessage num_add s (JSONText fin)))
           = input_transcription fin"
  using assms by (simp add: done_step)

theorem final_transcription_replaces_witness:
  "transcription
     (fst (handleDataChannelMessage (\<lambda>a b. JNum ''NaN'') (mounted\<lparr>transcription := JStr ''Helo''\<rparr>)
        (JSONText (JObj [(''type'', JStr ''response.done''),
                         (''response'', JObj [(''input_transcription'', JStr ''Hello'')])]))))
     = JStr ''Hello''"
proof -
  have ty: "member (JObj [(''type'', JStr ''response.done''),
        (''response'', JObj [(''input_transcription'', JStr ''Hello'')])]) ''type''
      = JStr ''response.done''"
    by simp
  have val: "input_transcription (JObj [(''type'', JStr ''response.done''),
        (''response'', JObj [(''input_transcription'', JStr ''Hello'')])]) = JStr ''Hello''"
    by (simp add: input_transcription_def nullish_def)
  have tr: "truthy (input_transcription (JObj [(''type'', JStr ''response.done''),
        (''response'', JObj [(''input_transcription'', JStr ''Hello'')])]))"
    by (simp add: val)
  from final_transcription_replaces [OF ty tr] show ?thesis
    by (simp add: val)
qed

text \<open>
  The claim as stated fails where the final transcription is the empty string: the
  payload includes the field, and the accumulator keeps the partial \<open>''Hel''\<close>.
\<close>

theorem final_transcription_empty_counterexample:
  "input_transcription
     (JObj [(''type'', JStr ''response.done''),
            (''response'', JObj [(''input_transcription'', JStr [])])]) = JStr [] \<and>
   transcription
     (fst (handleDataChannelMessage (\<lambda>a b. JNum ''NaN'') (mounted\<lparr>transcription := JStr ''Hel''\<rparr>)
        (JSONText (JObj [(''type'', JStr ''response.done''),
                         (''response'', JObj [(''input_transcription'', JStr [])])]))))
     = JStr ''Hel'' \<and>
   JStr ''Hel'' \<noteq> JStr []"
  by (simp add: handleDataChannelMessage_def get_def input_transcription_def nullish_def)

section \<open>A completion with no final value changes nothing\<close>

text \<open>
  C9. A \<^verbatim>\<open>response.done\<close> whose payload has no final transcription and no final output
  text (the path to it ends in \<open>undefined\<close>, or cannot be walked) leaves the component as
  it was, so both accumulators keep their values. Both copies of the handler do so.
\<close>

theorem done_without_final_values:
  assumes "member fin ''type'' = JStr ''response.done''"
    and "input_transcription fin = JUndefined"
    and "case output_text fin of Inl e \<Rightarrow> True | Inr t \<Rightarrow> t = JUndefined"
  shows "fst (handleDataChannelMessage num_add s (JSONText fin)) = s \<and>
         fst (handleDataChannelMessage_route num_add s (JSONText fin)) = s"
  using assms member_type_not_nullish[OF assms(1)]
  by (auto simp: handleDataChannelMessage_def handleDataChannelMessage_route_def get_def
      split: sum.splits)

theorem done_without_final_values_witness:
  "fst (handleDataChannelMessage (\<lambda>a b. JNum ''NaN'') (mounted\<lparr>responseText := JStr ''Hello''\<rparr>)
     (JSONText (JObj [(''type'', JStr ''response.done''), (''response'', JObj [])])))
     = mounted\<lparr>responseText := JStr ''Hello''\<rparr> \<and>
   fst (handleDataChannelMessage_route (\<lambda>a b. JNum ''NaN'') (mounted\<lparr>responseText := JStr ''Hello''\<rparr>)
     (JSONText (JObj [(''type'', JStr ''response.done''), (''response'', JObj [])])))
     = mounted\<lparr>responseText := JStr ''Hello''\<rparr>"
proof -
  have ty: "member (JObj [(''type'', JStr ''response.done''), (''response'', JObj [])]) ''type''
      = JStr ''response.done''"
    by simp
  have no_tr: "input_transcription (JObj [(''type'', JStr ''response.done''), (''response'', JObj [])])
      = JUndefined"
    by (simp add: input_transcription_def nullish_def)
  have no_text: "case output_text (JObj [(''type'', JStr ''response.done''), (''response'', JObj [])])
      of Inl e \<Rightarrow> True | Inr t \<Rightarrow> t = JUndefined"
    by (simp add: output_text_def nullish_def)
  from done_without_final_values [OF ty no_tr no_text] show ?thesis
    by blast
qed

section \<open>Frames the handler cannot read\<close>

text \<open>
  In \<^verbatim>\<open>RealtimeAssistant.tsx\<close> a frame whose handling throws leaves the component as it
  was: nothing is written before the last point that can throw.
\<close>

lemma failed_frame_changes_nothing:
  assumes "snd (handleDataChannelMessage num_add s ev) = Some e"
  shows "fst (handleDataChannelMessage num_add s ev) = s"
proof (cases "JSON_parse ev")
  case (Inl x)
  then show ?thesis by (simp add: handleDataChannelMessage_def)
next
  case msg: (Inr msg)
  show ?thesis
  proof (cases "get msg ''type''")
    case (Inl x)
    with msg show ?thesis by (simp add: handleDataChannelMessage_def)
  next
    case (Inr ty)
    with msg assms show ?thesis
      by (simp add: handleDataChannelMessage_def split: if_splits sum.splits)
  qed
qed

lemma handler_keeps_connection:
  "isConnected (fst (handleDataChannelMessage num_add s ev)) = isConnected s"
  "isConnected (fst (handleDataChannelMessage_route num_add s ev)) = isConnected s"
  by (simp_all add: handleDataChannelMessage_def handleDataChannelMessage_route_def Let_def
      split: sum.splits)

text \<open>
  C8 fails in the copy of the handler in \<^verbatim>\<open>describe-scene/route.ts\<close>. A
  \<^verbatim>\<open>response.done\<close> with a final transcription and an \<^verbatim>\<open>output[0]\<close> that has no
  \<^verbatim>\<open>content\<close> first replaces the transcription, then throws on \<^verbatim>\<open>content[0]\<close>: the
  exception is caught and logged, and the accumulator has changed.
\<close>

theorem route_done_writes_then_throws:
  "handleDataChannelMessage_route num_add (s\<lparr>transcription := JStr ''partial''\<rparr>)
     (JSONText (JObj [(''type'', JStr ''response.done''),
        (''response'', JObj [(''input_transcription'', JStr ''final''),
                             (''output'', JArr [JObj []])])]))
   = (s\<lparr>transcription := JStr ''final''\<rparr>, Some (cannot_read JUndefined ''0''))"
  by (simp add: handleDataChannelMessage_route_def get_def get0_def input_transcription_def
      output_text_def nullish_def)

section \<open>Disconnecting\<close>

lemma disconnect_releases:
  "peerConnectionRef (disconnectFromOpenAI s) = None"
  "dataChannelRef (disconnectFromOpenAI s) = None"
  "localAudioStreamRef (disconnectFromOpenAI s) = None"
  "localVideoStreamRef (disconnectFromOpenAI s) = None"
  by (simp_all add: disconnectFromOpenAI_def Let_def close_pc_def close_dc_def stop_tracks_def
      split: option.splits)

lemma disconnect_clears:
  "isConnected (disconnectFromOpenAI s) = False"
  "transcription (disconnectFromOpenAI s) = JStr []"
  "responseText (disconnectFromOpenAI s) = JStr []"
  "sceneDescription (disconnectFromOpenAI s) = JStr []"
  by (simp_all add: disconnectFromOpenAI_def Let_def)

lemma disconnect_when_released:
  assumes "peerConnectionRef s = None" "dataChannelRef s = None"
    "localAudioStreamRef s = None" "localVideoStreamRef s = None"
  shows "disconnectFromOpenAI s =
    s\<lparr>isConnected := False, transcription := JStr [], responseText := JStr [],
      sceneDescription := JStr []\<rparr>"
  using assms by (simp add: disconnectFromOpenAI_def)

lemma disconnect_twice: "disconnectFromOpenAI (disconnectFromOpenAI s) = disconnectFromOpenAI s"
  by (simp add: disconnect_when_released disconnect_releases)
    (simp add: disconnectFromOpenAI_def Let_def)

lemma disconnect_route_releases:
  "peerConnectionRef (disconnectFromOpenAI_route s) = None"
  "dataChannelRef (disconnectFromOpenAI_route s) = None"
  "localStreamRef (disconnectFromOpenAI_route s) = None"
  by (simp_all add: disconnectFromOpenAI_route_def Let_def close_pc_def close_dc_def
      stop_tracks_def split: option.splits)

lemma disconnect_route_clears:
  "isConnected (disconnectFromOpenAI_route s) = False"
  "transcription (disconnectFromOpenAI_route s) = JStr []"
  "responseText (disconnectFromOpenAI_route s) = JStr []"
  by (simp_all add: disconnectFromOpenAI_route_def Let_def)

lemma disconnect_route_when_released:
  assumes "peerConnectionRef s = None" "dataChannelRef s = None" "localStreamRef s = None"
  shows "disconnectFromOpenAI_route s =
    s\<lparr>isConnected := False, transcription := JStr [], responseText := JStr []\<rparr>"
  using assms by (simp add: disconnectFromOpenAI_route_def)

lemma disconnect_route_twice:
  "disconnectFromOpenAI_route (disconnectFromOpenAI_route s) = disconnectFromOpenAI_route s"
  by (simp add: disconnect_route_when_released disconnect_route_releases)
    (simp add: disconnectFromOpenAI_route_def Let_def)

text \<open>The tracks the component held are ended, and its connection is closed.\<close>

lemma update_at_nth: "i < length xs \<Longrightarrow> update_at i f xs ! i = f (xs ! i)"
  by (induction i f xs rule: update_at.induct) simp_all

lemma length_update_at: "length (update_at i f xs) = length xs"
  by (induction i f xs rule: update_at.induct) simp_all

lemma disconnect_ended_mono: "ended s \<subseteq> ended (disconnectFromOpenAI s)"
  by (auto simp: disconnectFromOpenAI_def Let_def close_pc_def close_dc_def stop_tracks_def
      split: option.splits)

lemma disconnect_stops_tracks:
  "localAudioStreamRef s = Some ts \<Longrightarrow> set ts \<subseteq> ended (disconnectFromOpenAI s)"
  "localVideoStreamRef s = Some ts \<Longrightarrow> set ts \<subseteq> ended (disconnectFromOpenAI s)"
  by (auto simp: disconnectFromOpenAI_def Let_def close_pc_def close_dc_def stop_tracks_def
      split: option.splits)

lemma disconnect_closes_connection:
  "peerConnectionRef s = Some p \<Longrightarrow> p < length (pcs s) \<Longrightarrow>
   pcs (disconnectFromOpenAI s) ! p = PcClosed"
  by (simp add: disconnectFromOpenAI_def Let_def close_pc_def close_dc_def stop_tracks_def
      update_at_nth split: option.splits)

lemma closing_or_closed:
  "c < length xs \<Longrightarrow>
   readyState (update_at c
     (\<lambda>ch. if readyState ch = DcConnecting \<or> readyState ch = DcOpen
           then ch\<lparr>readyState := DcClosing\<rparr> else ch) xs ! c) = DcClosing \<or>
   readyState (update_at c
     (\<lambda>ch. if readyState ch = DcConnecting \<or> readyState ch = DcOpen
           then ch\<lparr>readyState := DcClosing\<rparr> else ch) xs ! c) = DcClosed"
  by (cases "readyState (xs ! c)") (simp_all add: update_at_nth)

lemma disconnect_closes_channel:
  assumes "dataChannelRef s = Some c" "c < length (dcs s)"
  shows "readyState (dcs (disconnectFromOpenAI s) ! c) = DcClosing \<or>
         readyState (dcs (disconnectFromOpenAI s) ! c) = DcClosed"
proof (cases "peerConnectionRef s")
  case None
  with assms closing_or_closed[of c "dcs s"] show ?thesis
    by (simp add: disconnectFromOpenAI_def Let_def close_dc_def stop_tracks_def
        split: option.splits)
next
  case (Some p)
  have "c < length (map (\<lambda>ch. if owner ch = p then ch\<lparr>readyState := DcClosed\<rparr> else ch) (dcs s))"
    using assms(2) by simp
  from closing_or_closed[OF this] Some assms show ?thesis
    by (simp add: disconnectFromOpenAI_def Let_def close_pc_def close_dc_def stop_tracks_def
        split: option.splits)
qed

lemma disconnect_route_closes_channel:
  assumes "dataChannelRef s = Some c" "c < length (dcs s)"
  shows "readyState (dcs (disconnectFromOpenAI_route s) ! c) = DcClosing \<or>
         readyState (dcs (disconnectFromOpenAI_route s) ! c) = DcClosed"
proof (cases "peerConnectionRef s")
  case None
  with assms closing_or_closed[of c "dcs s"] show ?thesis
    by (simp add: disconnectFromOpenAI_route_def Let_def close_dc_def stop_tracks_def
        split: option.splits)
next
  case (Some p)
  have "c < length (map (\<lambda>ch. if owner ch = p then ch\<lparr>readyState := DcClosed\<rparr> else ch) (dcs s))"
    using assms(2) by simp
  from closing_or_closed[OF this] Some assms show ?thesis
    by (simp add: disconnectFromOpenAI_route_def Let_def close_pc_def close_dc_def stop_tracks_def
        split: option.splits)
qed

lemma disconnect_route_closes_connection:
  "peerConnectionRef s = Some p \<Longrightarrow> p < length (pcs s) \<Longrightarrow>
   pcs (disconnectFromOpenAI_route s) ! p = PcClosed"
  by (simp add: disconnectFromOpenAI_route_def Let_def close_pc_def close_dc_def stop_tracks_def
      update_at_nth split: option.splits)

lemma disconnect_route_stops_tracks:
  "localStreamRef s = Some ts \<Longrightarrow> set ts \<subseteq> ended (disconnectFromOpenAI_route s)"
  by (auto simp: disconnectFromOpenAI_route_def Let_def close_pc_def close_dc_def stop_tracks_def
      split: option.splits)

lemma disconnect_route_ended_mono: "ended s \<subseteq> ended (disconnectFromOpenAI_route s)"
  by (auto simp: disconnectFromOpenAI_route_def Let_def close_pc_def close_dc_def stop_tracks_def
      split: option.splits)

text \<open>
  C5. From any state, \<^verbatim>\<open>disconnectFromOpenAI\<close> leaves the component not connected, with
  the references to the transport, the channel and the media streams released and both
  accumulators empty; a second call in succession changes nothing more. What the
  references named is released with them: the connection \<open>p\<close> is closed, the channel \<open>c\<close>
  is closing or closed, every track of the streams held is ended, and no ended track
  comes back (a reference names a stored object, hence the bounds on \<open>p\<close> and \<open>c\<close>). The
  model has no failure to return because nothing the function calls can throw. Both
  copies behave so, the copy in \<^verbatim>\<open>describe-scene/route.ts\<close> with its one stream.
\<close>

theorem disconnect_idempotent:
  "disconnectFromOpenAI (disconnectFromOpenAI s) = disconnectFromOpenAI s \<and>
   isConnected (disconnectFromOpenAI s) = False \<and>
   peerConnectionRef (disconnectFromOpenAI s) = None \<and>
   dataChannelRef (disconnectFromOpenAI s) = None \<and>
   localAudioStreamRef (disconnectFromOpenAI s) = None \<and>
   localVideoStreamRef (disconnectFromOpenAI s) = None \<and>
   transcription (disconnectFromOpenAI s) = JStr [] \<and>
   responseText (disconnectFromOpenAI s) = JStr [] \<and>
   disconnectFromOpenAI_route (disconnectFromOpenAI_route s) = disconnectFromOpenAI_route s \<and>
   isConnected (disconnectFromOpenAI_route s) = False \<and>
   peerConnectionRef (disconnectFromOpenAI_route s) = None \<and>
   dataChannelRef (disconnectFromOpenAI_route s) = None \<and>
   localStreamRef (disconnectFromOpenAI_route s) = None \<and>
   transcription (disconnectFromOpenAI_route s) = JStr [] \<and>
   responseText (disconnectFromOpenAI_route s) = JStr [] \<and>
   (peerConnectionRef s = Some p \<and> p < length (pcs s) \<longrightarrow>
      pcs (disconnectFromOpenAI s) ! p = PcClosed) \<and>
   (dataChannelRef s = Some c \<and> c < length (dcs s) \<longrightarrow>
      (readyState (dcs (disconnectFromOpenAI s) ! c) = DcClosing \<or>
       readyState (dcs (disconnectFromOpenAI s) ! c) = DcClosed)) \<and>
   (localAudioStreamRef s = Some ats \<longrightarrow> set ats \<subseteq> ended (disconnectFromOpenAI s)) \<and>
   (localVideoStreamRef s = Some vts \<longrightarrow> set vts \<subseteq> ended (disconnectFromOpenAI s)) \<and>
   ended s \<subseteq> ended (disconnectFromOpenAI s) \<and>
   (peerConnectionRef s = Some p \<and> p < length (pcs s) \<longrightarrow>
      pcs (disconnectFromOpenAI_route s) ! p = PcClosed) \<and>
   (dataChannelRef s = Some c \<and> c < length (dcs s) \<longrightarrow>
      (readyState (dcs (disconnectFromOpenAI_route s) ! c) = DcClosing \<or>
       readyState (dcs (disconnectFromOpenAI_route s) ! c) = DcClosed)) \<and>
   (localStreamRef s = Some ts \<longrightarrow> set ts \<subseteq> ended (disconnectFromOpenAI_route s)) \<and>
   ended s \<subseteq> ended (disconnectFromOpenAI_route s)"
proof -
  have kept:
    "disconnectFromOpenAI (disconnectFromOpenAI s) = disconnectFromOpenAI s \<and>
     isConnected (disconnectFromOpenAI s) = False \<and>
     peerConnectionRef (disconnectFromOpenAI s) = None \<and>
     dataChannelRef (disconnectFromOpenAI s) = None \<and>
     localAudioStreamRef (disconnectFromOpenAI s) = None \<and>
     localVideoStreamRef (disconnectFromOpenAI s) = None \<and>
     transcription (disconnectFromOpenAI s) = JStr [] \<and>
     responseText (disconnectFromOpenAI s) = JStr [] \<and>
     disconnectFromOpenAI_route (disconnectFromOpenAI_route s) = disconnectFromOpenAI_route s \<and>
     isConnected (disconnectFromOpenAI_route s) = False \<and>
     peerConnectionRef (disconnectFromOpenAI_route s) = None \<and>
     dataChannelRef (disconnectFromOpenAI_route s) = None \<and>
     localStreamRef (disconnectFromOpenAI_route s) = None \<and>
     transcription (disconnectFromOpenAI_route s) = JStr [] \<and>
     responseText (disconnectFromOpenAI_route s) = JStr []"
    by (simp only: disconnect_twice disconnect_releases disconnect_clears
        disconnect_route_twice disconnect_route_releases disconnect_route_clears simp_thms)
  have released:
    "(peerConnectionRef s = Some p \<and> p < length (pcs s) \<longrightarrow>
        pcs (disconnectFromOpenAI s) ! p = PcClosed) \<and>
     (dataChannelRef s = Some c \<and> c < length (dcs s) \<longrightarrow>
        (readyState (dcs (disconnectFromOpenAI s) ! c) = DcClosing \<or>
         readyState (dcs (disconnectFromOpenAI s) ! c) = DcClosed)) \<and>
     (localAudioStreamRef s = Some ats \<longrightarrow> set ats \<subseteq> ended (disconnectFromOpenAI s)) \<and>
     (localVideoStreamRef s = Some vts \<longrightarrow> set vts \<subseteq> ended (disconnectFromOpenAI s)) \<and>
     ended s \<subseteq> ended (disconnectFromOpenAI s)"
    using disconnect_closes_connection disconnect_closes_channel disconnect_stops_tracks
      disconnect_ended_mono by blast
  have released_route:
    "(peerConnectionRef s = Some p \<and> p < length (pcs s) \<longrightarrow>
        pcs (disconnectFromOpenAI_route s) ! p = PcClosed) \<and>
     (dataChannelRef s = Some c \<and> c < length (dcs s) \<longrightarrow>
        (readyState (dcs (disconnectFromOpenAI_route s) ! c) = DcClosing \<or>
         readyState (dcs (disconnectFromOpenAI_route s) ! c) = DcClosed)) \<and>
     (localStreamRef s = Some ts \<longrightarrow> set ts \<subseteq> ended (disconnectFromOpenAI_route s)) \<and>
     ended s \<subseteq> ended (disconnectFromOpenAI_route s)"
    using disconnect_route_closes_connection disconnect_route_closes_channel
      disconnect_route_stops_tracks disconnect_route_ended_mono by blast
  from kept released released_route show ?thesis
    by (intro conjI) (elim conjE, assumption)+
qed

section \<open>The scene description\<close>

lemma scene_guards_passed:
  assumes "isConnected s" "localVideoStreamRef s = Some vs" "videoElRef s = Some v"
    "srcObject v = Some src"
  shows "requestSceneDescription env s =
    (let s1 = s\<lparr>isProcessingScene := True,
               sceneDescription := JStr ''Capturing frame and analyzing scene...'',
               videoError := None\<rparr>;
         s2 = (case (case capture_frame env of
                       Inl e \<Rightarrow> Inl e
                     | Inr imageDataUrl \<Rightarrow> describe_scene env imageDataUrl) of
                 Inr description \<Rightarrow> speakText description (s1\<lparr>sceneDescription := description\<rparr>)
               | Inl e \<Rightarrow>
                   s1\<lparr>sceneDescription := JStr (''Error: '' @ message e),
                      videoError := Some (''Error during scene analysis: '' @ message e)\<rparr>)
     in s2\<lparr>isProcessingScene := False\<rparr>)"
  using assms by (simp add: requestSceneDescription_def)

text \<open>
  C4. The component is connected, shows its video, and its data channel \<open>c\<close> is open; the
  frame is captured and the endpoint answers with the description \<open>D\<close>. Then exactly two
  messages are sent, both on \<open>c\<close>: a \<^verbatim>\<open>conversation.item.create\<close> whose content text is
  \<open>D\<close>, then a \<^verbatim>\<open>response.create\<close>; and the scene description shown is \<open>D\<close>.
\<close>

theorem scene_description_is_spoken:
  assumes "isConnected s" "localVideoStreamRef s = Some vs" "videoElRef s = Some v"
    "srcObject v = Some src"
    and "dataChannelRef s = Some c" "ready s c = DcOpen"
    and "capture_frame env = Inr img" "describe_scene env img = Inr D"
  shows "sent (requestSceneDescription env s)
           = sent s @ [(c, createItemEvent D), (c, createResponseEvent)] \<and>
         member (createItemEvent D) ''type'' = JStr ''conversation.item.create'' \<and>
         member (index0 (member (member (createItemEvent D) ''item'') ''content'')) ''text'' = D \<and>
         member createResponseEvent ''type'' = JStr ''response.create'' \<and>
         sceneDescription (requestSceneDescription env s) = D"
  using assms(5-8)
  by (simp add: scene_guards_passed[OF assms(1-4)] speakText_def ready_def
      createItemEvent_def createResponseEvent_def Let_def split: if_splits)

text \<open>
  C6. Asked for a scene description while not connected, the component shows the alert
  that asks to connect first and does nothing else: no message is sent and no other cell
  of its state changes.
\<close>

theorem scene_request_needs_connection:
  assumes "\<not> isConnected s"
  shows "requestSceneDescription env s
           = s\<lparr>alerts := alerts s @ [''Please connect the assistant first.'']\<rparr> \<and>
         sent (requestSceneDescription env s) = sent s \<and>
         transcription (requestSceneDescription env s) = transcription s \<and>
         responseText (requestSceneDescription env s) = responseText s \<and>
         isConnected (requestSceneDescription env s) = isConnected s"
  using assms by (simp add: requestSceneDescription_def)

lemma capture_needs_dimensions:
  assumes "fst (size_at_call env) = 0 \<or> snd (size_at_call env) = 0"
    and "fst (size_after_wait env) = 0 \<or> snd (size_after_wait env) = 0"
  shows "capture_frame env = Inl (Error ''Video dimensions not available'')"
  using assms by (simp add: capture_frame_def)

text \<open>
  C7. The guards are passed and the capture fails (as it does when a dimension is still
  zero after the one wait), or the capture gives \<open>img\<close> and the call to the endpoint
  fails, with the exception \<open>e\<close>. Then nothing is sent, and the error is shown: as the
  scene description and as the video error, both carrying the message of \<open>e\<close>.
\<close>

theorem scene_failure_sends_nothing:
  assumes "isConnected s" "localVideoStreamRef s = Some vs" "videoElRef s = Some v"
    "srcObject v = Some src"
    and "capture_frame env = Inl e \<or> (capture_frame env = Inr img \<and> describe_scene env img = Inl e)"
  shows "sent (requestSceneDescription env s) = sent s \<and>
         sceneDescription (requestSceneDescription env s) = JStr (''Error: '' @ message e) \<and>
         videoError (requestSceneDescription env s)
           = Some (''Error during scene analysis: '' @ message e)"
  using assms(5) by (auto simp: scene_guards_passed[OF assms(1-4)])

section \<open>The endpoint's replies\<close>

lemma truthy_not_nullish: "truthy v \<Longrightarrow> \<not> nullish v"
  by (cases v) (simp_all add: nullish_def)

lemma post_without_image:
  assumes "key \<noteq> []" "\<not> nullish body" "\<not> truthy (member body ''image_data_url'')"
  shows "POST (Some key) (Inr body) fetch_openai =
     (\<lparr>code = 400, content = JObj [(''error'', JStr ''No image data provided.'')]\<rparr>, [])"
  using assms by (simp add: POST_def POST_try_def destructure_def NextResponse_json_def)

lemma post_relays_status:
  assumes "key \<noteq> []" "truthy (member body ''image_data_url'')"
    and "fetch_openai (''Bearer '' @ key)
           (payload (member body ''image_data_url'') (member body ''prompt'')) = Inr r"
    and "json_body r = Inr errorBody"
    and "300 \<le> status r" "status r \<le> 599" "status r \<noteq> 304"
  shows "code (fst (POST (Some key) (Inr body) fetch_openai)) = status r"
proof -
  have "\<not> nullish body"
    using assms(2) by (cases body) (simp_all add: nullish_def)
  moreover have "\<not> ok r"
    using assms(5) by (simp add: ok_def)
  ultimately show ?thesis
    using assms by (simp add: POST_def POST_try_def destructure_def NextResponse_json_def)
qed

text \<open>
  C10, as the code has it. The server has its API key. A request whose JSON body (any
  value but \<open>null\<close>) has no image, or a falsy one, is answered with 400 and the provider
  is not contacted. When the provider answers a request that carries an image with a
  status from 300 to 599 other than 304 and an error body that is JSON, the reply carries
  that status.
\<close>

theorem post_rejects_and_relays:
  assumes "key \<noteq> []"
  shows "(\<not> nullish body \<and> \<not> truthy (member body ''image_data_url'') \<longrightarrow>
            POST (Some key) (Inr body) fetch_openai =
              (\<lparr>code = 400, content = JObj [(''error'', JStr ''No image data provided.'')]\<rparr>, [])) \<and>
         (truthy (member body ''image_data_url'') \<and>
          fetch_openai (''Bearer '' @ key)
            (payload (member body ''image_data_url'') (member body ''prompt'')) = Inr r \<and>
          json_body r = Inr errorBody \<and>
          300 \<le> status r \<and> status r \<le> 599 \<and> status r \<noteq> 304 \<longrightarrow>
            code (fst (POST (Some key) (Inr body) fetch_openai)) = status r)"
  using assms post_without_image post_relays_status by blast

text \<open>
  The claim as stated fails in two places. Without the API key the request with no image
  is answered with 500; and a provider failure whose body is not JSON (here a 502) is
  answered with 500, after the provider was contacted.
\<close>

theorem post_counterexample:
  "code (fst (POST None (Inr (JObj [(''prompt'', JStr ''What is this?'')]))
            (\<lambda>auth body. Inl (TypeError ''fetch failed'')))) = 500 \<and>
   code (fst (POST (Some ''sk-test'') (Inr (JObj [(''image_data_url'', JStr ''data:image/jpeg;base64,AA=='')]))
            (\<lambda>auth body. Inr \<lparr>status = 502, json_body = Inl (SyntaxError ''Unexpected token <''),
                                   text_body = Inr ''<html>Bad Gateway</html>''\<rparr>))) = 500 \<and>
   length (snd (POST (Some ''sk-test'') (Inr (JObj [(''image_data_url'', JStr ''data:image/jpeg;base64,AA=='')]))
            (\<lambda>auth body. Inr \<lparr>status = 502, json_body = Inl (SyntaxError ''Unexpected token <''),
                                   text_body = Inr ''<html>Bad Gateway</html>''\<rparr>))) = 1"
  by (simp add: POST_def POST_try_def destructure_def nullish_def ok_def)

section \<open>A connection that fails at the negotiation\<close>

lemma update_at_append: "n = length xs \<Longrightarrow> update_at n f (xs @ [x]) = xs @ [f x]"
  by (induction xs arbitrary: n) simp_all

lemma negotiation_failure_tears_down:
  assumes "\<not> connected_already s"
    and "ephemeral_key env = Inr key" "getUserMedia env = Inr u" "negotiate env key = Inl e"
  shows "isConnected (connectToOpenAI env s) = False \<and>
         peerConnectionRef (connectToOpenAI env s) = None \<and>
         dataChannelRef (connectToOpenAI env s) = None \<and>
         localAudioStreamRef (connectToOpenAI env s) = None \<and>
         localVideoStreamRef (connectToOpenAI env s) = None \<and>
         alerts (connectToOpenAI env s) = alerts s @ [''Connection error: '' @ message e] \<and>
         ntracks (connectToOpenAI env s) = ntracks s + 2 \<and>
         {ntracks s, ntracks s + 1} \<subseteq> ended (connectToOpenAI env s) \<and>
         pcs (connectToOpenAI env s) = pcs s @ [PcClosed] \<and>
         last (dcs (connectToOpenAI env s)) = \<lparr>owner = length (pcs s), readyState = DcClosed\<rparr>"
  using assms
  by (auto simp: connectToOpenAI_def connect_try_def new_RTCPeerConnection_def
      initializeVideoStream_def createDataChannel_def handleVideoError_def Let_def
      disconnectFromOpenAI_def close_pc_def close_dc_def stop_tracks_def update_at_append
      split: option.splits sum.splits)


text \<open>
  C3 fails in the copy of \<^verbatim>\<open>connectToOpenAI\<close> in \<^verbatim>\<open>describe-scene/route.ts\<close>. The key and
  the microphone are granted and the realtime endpoint refuses the offer with 401: the
  copy alerts and closes the connection, and returns with the microphone track still
  live and the three references still set. (\<^verbatim>\<open>RealtimeAssistant.tsx\<close> tears all of it
  down, as the lemma above shows.)
\<close>

theorem route_negotiation_failure_keeps_microphone:
  "localStreamRef
     (connectToOpenAI_route
        (answers\<lparr>fetch_realtime := (\<lambda>auth sdp. Inr \<lparr>status = 401,
             json_body = Inl (SyntaxError ''Unexpected token I''), text_body = Inr ''Invalid key''\<rparr>)\<rparr>)
        mounted) = Some [0] \<and>
   ended
     (connectToOpenAI_route
        (answers\<lparr>fetch_realtime := (\<lambda>auth sdp. Inr \<lparr>status = 401,
             json_body = Inl (SyntaxError ''Unexpected token I''), text_body = Inr ''Invalid key''\<rparr>)\<rparr>)
        mounted) = {} \<and>
   peerConnectionRef
     (connectToOpenAI_route
        (answers\<lparr>fetch_realtime := (\<lambda>auth sdp. Inr \<lparr>status = 401,
             json_body = Inl (SyntaxError ''Unexpected token I''), text_body = Inr ''Invalid key''\<rparr>)\<rparr>)
        mounted) = Some 0 \<and>
   dataChannelRef
     (connectToOpenAI_route
        (answers\<lparr>fetch_realtime := (\<lambda>auth sdp. Inr \<lparr>status = 401,
             json_body = Inl (SyntaxError ''Unexpected token I''), text_body = Inr ''Invalid key''\<rparr>)\<rparr>)
        mounted) = Some 0 \<and>
   alerts
     (connectToOpenAI_route
        (answers\<lparr>fetch_realtime := (\<lambda>auth sdp. Inr \<lparr>status = 401,
             json_body = Inl (SyntaxError ''Unexpected token I''), text_body = Inr ''Invalid key''\<rparr>)\<rparr>)
        mounted) = [''Failed to get SDP answer: Invalid key'']"
  by (simp add: connectToOpenAI_route_def connected_already_def mounted_def connect_try_route_def
      answers_def ok_def client_secret_value_def get_def nullish_def new_RTCPeerConnection_def
      createDataChannel_def post_offer_def close_pc_def Let_def)

section \<open>The claims at concrete inputs\<close>

theorem disconnect_idempotent_witness:
  "disconnectFromOpenAI (disconnectFromOpenAI in_call) = disconnectFromOpenAI in_call \<and>
   isConnected (disconnectFromOpenAI in_call) = False \<and>
   transcription (disconnectFromOpenAI in_call) = JStr [] \<and>
   pcs (disconnectFromOpenAI in_call) ! 0 = PcClosed \<and>
   (readyState (dcs (disconnectFromOpenAI in_call) ! 0) = DcClosing \<or>
    readyState (dcs (disconnectFromOpenAI in_call) ! 0) = DcClosed) \<and>
   set [0] \<subseteq> ended (disconnectFromOpenAI in_call) \<and>
   set [1] \<subseteq> ended (disconnectFromOpenAI in_call) \<and>
   pcs (disconnectFromOpenAI_route in_call_route) ! 0 = PcClosed \<and>
   (readyState (dcs (disconnectFromOpenAI_route in_call_route) ! 0) = DcClosing \<or>
    readyState (dcs (disconnectFromOpenAI_route in_call_route) ! 0) = DcClosed) \<and>
   set [0] \<subseteq> ended (disconnectFromOpenAI_route in_call_route)"
proof -
  have held: "peerConnectionRef in_call = Some 0 \<and> 0 < length (pcs in_call)"
    "dataChannelRef in_call = Some 0 \<and> 0 < length (dcs in_call)"
    "localAudioStreamRef in_call = Some [0]" "localVideoStreamRef in_call = Some [1]"
    by (simp_all add: in_call_state)
  have held_route: "peerConnectionRef in_call_route = Some 0 \<and> 0 < length (pcs in_call_route)"
    "dataChannelRef in_call_route = Some 0 \<and> 0 < length (dcs in_call_route)"
    "localStreamRef in_call_route = Some [0]"
    by (simp_all add: in_call_route_state)
  from disconnect_idempotent
      [where s = in_call and p = 0 and c = 0 and ats = "[0]" and vts = "[1]"] held
  have main: "disconnectFromOpenAI (disconnectFromOpenAI in_call) = disconnectFromOpenAI in_call \<and>
      isConnected (disconnectFromOpenAI in_call) = False \<and>
      transcription (disconnectFromOpenAI in_call) = JStr [] \<and>
      pcs (disconnectFromOpenAI in_call) ! 0 = PcClosed \<and>
      (readyState (dcs (disconnectFromOpenAI in_call) ! 0) = DcClosing \<or>
       readyState (dcs (disconnectFromOpenAI in_call) ! 0) = DcClosed) \<and>
      set [0] \<subseteq> ended (disconnectFromOpenAI in_call) \<and>
      set [1] \<subseteq> ended (disconnectFromOpenAI in_call)"
    by blast
  from disconnect_idempotent
      [where s = in_call_route and p = 0 and c = 0 and ts = "[0]"] held_route
  have route: "pcs (disconnectFromOpenAI_route in_call_route) ! 0 = PcClosed \<and>
      (readyState (dcs (disconnectFromOpenAI_route in_call_route) ! 0) = DcClosing \<or>
       readyState (dcs (disconnectFromOpenAI_route in_call_route) ! 0) = DcClosed) \<and>
      set [0] \<subseteq> ended (disconnectFromOpenAI_route in_call_route)"
    by blast
  from main route show ?thesis
    by blast
qed

theorem scene_description_is_spoken_witness:
  "sent (requestSceneDescription camera in_call)
     = [(0, createItemEvent (JStr ''A red chair'')), (0, createResponseEvent)] \<and>
   sceneDescription (requestSceneDescription camera in_call) = JStr ''A red chair''"
proof -
  have guards: "isConnected in_call" "localVideoStreamRef in_call = Some [1]"
    "videoElRef in_call = Some \<lparr>srcObject = Some [1]\<rparr>"
    "srcObject \<lparr>srcObject = Some [1]\<rparr> = Some [1]"
    by (simp_all add: in_call_state)
  have channel: "dataChannelRef in_call = Some 0" "ready in_call 0 = DcOpen"
    by (simp_all add: in_call_state ready_def)
  have frame: "capture_frame camera = Inr ''data:image/jpeg;base64,AA==''"
    by (simp add: capture_frame_def camera_def)
  have described: "describe_scene camera ''data:image/jpeg;base64,AA=='' = Inr (JStr ''A red chair'')"
    by (simp add: describe_scene_def camera_def ok_def get_def nullish_def)
  have "sent in_call = []"
    by (simp add: in_call_state)
  with scene_description_is_spoken [OF guards channel frame described] show ?thesis
    by simp
qed

theorem scene_request_needs_connection_witness:
  "requestSceneDescription camera mounted
     = mounted\<lparr>alerts := alerts mounted @ [''Please connect the assistant first.'']\<rparr> \<and>
   sent (requestSceneDescription camera mounted) = sent mounted"
proof -
  have "\<not> isConnected mounted"
    by (simp add: mounted_def)
  from scene_request_needs_connection [OF this] show ?thesis
    by blast
qed

theorem scene_failure_sends_nothing_witness:
  "sent (requestSceneDescription (camera\<lparr>size_at_call := (0, 0), size_after_wait := (0, 0)\<rparr>) in_call)
     = sent in_call \<and>
   sceneDescription
     (requestSceneDescription (camera\<lparr>size_at_call := (0, 0), size_after_wait := (0, 0)\<rparr>) in_call)
     = JStr (''Error: '' @ message (Error ''Video dimensions not available''))"
proof -
  have guards: "isConnected in_call" "localVideoStreamRef in_call = Some [1]"
    "videoElRef in_call = Some \<lparr>srcObject = Some [1]\<rparr>"
    "srcObject \<lparr>srcObject = Some [1]\<rparr> = Some [1]"
    by (simp_all add: in_call_state)
  have "capture_frame (camera\<lparr>size_at_call := (0, 0), size_after_wait := (0, 0)\<rparr>)
      = Inl (Error ''Video dimensions not available'')"
    by (rule capture_needs_dimensions) simp_all
  then have failure:
    "capture_frame (camera\<lparr>size_at_call := (0, 0), size_after_wait := (0, 0)\<rparr>)
       = Inl (Error ''Video dimensions not available'') \<or>
     (capture_frame (camera\<lparr>size_at_call := (0, 0), size_after_wait := (0, 0)\<rparr>) = Inr []
      \<and> describe_scene (camera\<lparr>size_at_call := (0, 0), size_after_wait := (0, 0)\<rparr>) []
          = Inl (Error ''Video dimensions not available''))"
    by (rule disjI1)
  from scene_failure_sends_nothing [OF guards failure] show ?thesis
    by blast
qed

theorem post_rejects_and_relays_witness:
  "POST (Some ''sk-test'') (Inr (JObj [(''prompt'', JStr ''What is this?'')]))
     (\<lambda>auth body. Inl (TypeError ''fetch failed''))
     = (\<lparr>code = 400, content = JObj [(''error'', JStr ''No image data provided.'')]\<rparr>, []) \<and>
   code (fst (POST (Some ''sk-test'') (Inr (JObj [(''image_data_url'', JStr ''data:image/jpeg;base64,AA=='')]))
     (\<lambda>auth body. Inr \<lparr>status = 429, json_body = Inr (JObj [(''error'', JStr ''rate limit'')]),
                            text_body = Inr []\<rparr>))) = 429"
proof -
  have key: "''sk-test'' \<noteq> []"
    by simp
  have no_image: "\<not> nullish (JObj [(''prompt'', JStr ''What is this?'')]) \<and>
      \<not> truthy (member (JObj [(''prompt'', JStr ''What is this?'')]) ''image_data_url'')"
    by (simp add: nullish_def)
  have refused: "truthy (member (JObj [(''image_data_url'', JStr ''data:image/jpeg;base64,AA=='')]) ''image_data_url'') \<and>
      (\<lambda>auth body. Inr \<lparr>status = 429, json_body = Inr (JObj [(''error'', JStr ''rate limit'')]),
                             text_body = Inr []\<rparr>) (''Bearer '' @ ''sk-test'')
        (payload (member (JObj [(''image_data_url'', JStr ''data:image/jpeg;base64,AA=='')]) ''image_data_url'')
                 (member (JObj [(''image_data_url'', JStr ''data:image/jpeg;base64,AA=='')]) ''prompt''))
        = Inr \<lparr>status = 429, json_body = Inr (JObj [(''error'', JStr ''rate limit'')]), text_body = Inr []\<rparr> \<and>
      json_body \<lparr>status = 429, json_body = Inr (JObj [(''error'', JStr ''rate limit'')]), text_body = Inr []\<rparr>
        = Inr (JObj [(''error'', JStr ''rate limit'')]) \<and>
      300 \<le> status \<lparr>status = 429, json_body = Inr (JObj [(''error'', JStr ''rate limit'')]), text_body = Inr []\<rparr> \<and>
      status \<lparr>status = 429, json_body = Inr (JObj [(''error'', JStr ''rate limit'')]), text_body = Inr []\<rparr> \<le> 599 \<and>
      status \<lparr>status = 429, json_body = Inr (JObj [(''error'', JStr ''rate limit'')]), text_body = Inr []\<rparr> \<noteq> 304"
    by simp
  have first: "POST (Some ''sk-test'') (Inr (JObj [(''prompt'', JStr ''What is this?'')]))
     (\<lambda>auth body. Inl (TypeError ''fetch failed''))
     = (\<lparr>code = 400, content = JObj [(''error'', JStr ''No image data provided.'')]\<rparr>, [])"
    using post_rejects_and_relays [OF key] no_image by blast
  have second: "code (fst (POST (Some ''sk-test'') (Inr (JObj [(''image_data_url'', JStr ''data:image/jpeg;base64,AA=='')]))
     (\<lambda>auth body. Inr \<lparr>status = 429, json_body = Inr (JObj [(''error'', JStr ''rate limit'')]),
                            text_body = Inr []\<rparr>)))
     = status \<lparr>status = 429, json_body = Inr (JObj [(''error'', JStr ''rate limit'')]), text_body = Inr []\<rparr>"
    using post_rejects_and_relays [OF key,
        of "JObj [(''image_data_url'', JStr ''data:image/jpeg;base64,AA=='')]"
           "\<lambda>auth body. Inr \<lparr>status = 429, json_body = Inr (JObj [(''error'', JStr ''rate limit'')]), text_body = Inr []\<rparr>"
           "\<lparr>status = 429, json_body = Inr (JObj [(''error'', JStr ''rate limit'')]), text_body = Inr []\<rparr>"
           "JObj [(''error'', JStr ''rate limit'')]"]
      refused by blast
  from first second show ?thesis
    by simp
qed

end
